theory Spec2Isabelle
  imports Main "HOL-Library.Sublist"
begin

section \<open>The PAIR messaging node of messaging.go\<close>

text \<open>
  The program is one Go file. It builds a mangos PAIR socket, tries to listen on an
  address and dials it when listening fails, then runs three send/receive round trips
  and closes the socket. Everything the program does is a call into a library (mangos,
  log, time, os), so the model is a trace semantics: each library call appends one event
  to the trace of the process, together with the result the library returned. The results
  of the fallible library calls are the inputs of a run and come from an environment.
\<close>

subsection \<open>Library values\<close>

text \<open>\<^verbatim>\<open>time.Duration\<close> counts nanoseconds; \<^verbatim>\<open>time.Second\<close> is 10^9 of them.\<close>

type_synonym duration = int

definition Second :: duration where
  "Second = 1000000000"

datatype protocol = PAIR

datatype transport = IPC | TCP

datatype option_name = OptionRecvDeadline

text \<open>
  Modelled from the spec: the mangos socket object, which is library code and not part of
  messaging.go. The spec's Endpoint has a communication pattern, a set of enabled
  transport mechanisms and a configured receive timeout; the record holds what the
  configuration calls have set.
\<close>

record socket =
  sk_protocol :: protocol
  sk_transports :: "transport list"
  sk_recv_deadline :: "duration option"

subsection \<open>Events, the process state and the environment\<close>

text \<open>
  A Go \<^verbatim>\<open>error\<close> is modelled by its message (\<^verbatim>\<open>err.Error()\<close>): \<open>None\<close> is \<^verbatim>\<open>nil\<close>,
  \<open>Some e\<close> an error with message \<open>e\<close>. A library call that returns a value or an error
  returns \<open>Inr\<close> of the value or \<open>Inl\<close> of the message. Each event records the call and
  what it returned.
\<close>

datatype event =
    E_NewSocket "string option"
  | E_AddTransport transport
  | E_SetOption option_name duration
  | E_Listen string "string option"
  | E_Dial string "string option"
  | E_Send string "string option"
  | E_Recv "string + string"
  | E_Close
  | E_Sleep duration
  | E_Log string
  | E_Exit int

text \<open>
  The process state: the global variable \<^verbatim>\<open>node\<close> and the trace of events so far,
  oldest first.
\<close>

record world =
  node :: string
  trace :: "event list"

text \<open>
  The environment fixes what the library answers. \<open>send_res\<close> and \<open>recv_res\<close> are asked
  with the number of earlier \<^verbatim>\<open>Send\<close> (\<^verbatim>\<open>Recv\<close>) calls of the process, so that each call
  of a run may be answered differently. A receive deadline that expires is one of the
  errors \<^verbatim>\<open>Recv\<close> returns. Every library call is taken to return.
\<close>

record env =
  new_socket_res :: "string option"
  listen_res :: "string \<Rightarrow> string option"
  dial_res :: "string \<Rightarrow> string option"
  send_res :: "nat \<Rightarrow> string \<Rightarrow> string option"
  recv_res :: "nat \<Rightarrow> string + string"

text \<open>
  How a function call ends: it returns a value, or the process has been terminated by
  \<^verbatim>\<open>os.Exit\<close> inside the call (no deferred call runs, nothing runs afterwards), or a
  run-time panic unwinds the stack.
\<close>

datatype 'a outcome = Exited world | Panicked world | Returned 'a world

fun world_of :: "'a outcome \<Rightarrow> world" where
  "world_of (Exited w) = w"
| "world_of (Panicked w) = w"
| "world_of (Returned a w) = w"

fun is_Returned :: "'a outcome \<Rightarrow> bool" where
  "is_Returned (Returned a w) = True"
| "is_Returned (Exited w) = False"
| "is_Returned (Panicked w) = False"

fun is_Exited :: "'a outcome \<Rightarrow> bool" where
  "is_Exited (Exited w) = True"
| "is_Exited (Returned a w) = False"
| "is_Exited (Panicked w) = False"

definition emit :: "event list \<Rightarrow> world \<Rightarrow> world" where
  "emit evs w = w\<lparr>trace := trace w @ evs\<rparr>"

fun is_send :: "event \<Rightarrow> bool" where
  "is_send (E_Send m r) = True"
| "is_send e = False"

fun is_recv :: "event \<Rightarrow> bool" where
  "is_recv (E_Recv r) = True"
| "is_recv e = False"

definition n_sends :: "event list \<Rightarrow> nat" where
  "n_sends evs = length (filter is_send evs)"

definition n_recvs :: "event list \<Rightarrow> nat" where
  "n_recvs evs = length (filter is_recv evs)"

subsection \<open>The standard library: log, time, fmt\<close>

text \<open>
  \<^verbatim>\<open>log.Printf\<close> writes one formatted line; the event holds the formatted text, without
  the time stamp the logger puts in front. \<^verbatim>\<open>log.Fatalf\<close> is \<^verbatim>\<open>log.Printf\<close> followed
  by \<^verbatim>\<open>os.Exit(1)\<close>, which ends the process at once: deferred calls do not run.
\<close>

definition log_Printf :: "string \<Rightarrow> world \<Rightarrow> world" where
  "log_Printf msg w = emit [E_Log msg] w"

definition log_Fatalf :: "string \<Rightarrow> world \<Rightarrow> 'a outcome" where
  "log_Fatalf msg w = Exited (emit [E_Exit 1] (log_Printf msg w))"

definition time_Sleep :: "duration \<Rightarrow> world \<Rightarrow> world" where
  "time_Sleep d w = emit [E_Sleep d] w"

text \<open>The verb \<^verbatim>\<open>%d\<close> of \<^verbatim>\<open>fmt\<close> on an \<^verbatim>\<open>int\<close>: decimal digits, a minus sign when negative.\<close>

fun decimal :: "nat \<Rightarrow> string" where
  "decimal n = (if n < 10 then [''0123456789'' ! n]
                else decimal (n div 10) @ [''0123456789'' ! (n mod 10)])"

definition fmt_d :: "int \<Rightarrow> string" where
  "fmt_d i = (if i < 0 then CHR ''-'' # decimal (nat (- i)) else decimal (nat i))"

subsection \<open>The mangos calls\<close>

text \<open>
  Modelled from the spec: \<^verbatim>\<open>pair.NewSocket\<close>, \<^verbatim>\<open>AddTransport\<close> and \<^verbatim>\<open>SetOption\<close> of the
  mangos library, which are not part of messaging.go. A new socket speaks the pair pattern
  and has no transport and no receive deadline; \<^verbatim>\<open>AddTransport\<close> enables one more
  transport; \<^verbatim>\<open>SetOption\<close> with \<^verbatim>\<open>OptionRecvDeadline\<close> and a duration stores the
  deadline (the program drops the error value this call returns).
\<close>

definition pair_NewSocket :: "env \<Rightarrow> world \<Rightarrow> (string + socket) \<times> world" where
  "pair_NewSocket env w =
     (case new_socket_res env of
        Some e \<Rightarrow> (Inl e, emit [E_NewSocket (Some e)] w)
      | None \<Rightarrow> (Inr \<lparr>sk_protocol = PAIR, sk_transports = [], sk_recv_deadline = None\<rparr>,
                 emit [E_NewSocket None] w))"

definition socket_AddTransport :: "socket \<Rightarrow> transport \<Rightarrow> world \<Rightarrow> socket \<times> world" where
  "socket_AddTransport s t w =
     (s\<lparr>sk_transports := sk_transports s @ [t]\<rparr>, emit [E_AddTransport t] w)"

fun socket_SetOption :: "socket \<Rightarrow> option_name \<Rightarrow> duration \<Rightarrow> world \<Rightarrow> socket \<times> world" where
  "socket_SetOption s OptionRecvDeadline d w =
     (s\<lparr>sk_recv_deadline := Some d\<rparr>, emit [E_SetOption OptionRecvDeadline d] w)"

text \<open>
  \<^verbatim>\<open>Listen\<close>, \<^verbatim>\<open>Dial\<close>, \<^verbatim>\<open>Send\<close>, \<^verbatim>\<open>Recv\<close> and \<^verbatim>\<open>Close\<close> are answered by the
  environment and recorded.
\<close>

definition socket_Listen :: "env \<Rightarrow> socket \<Rightarrow> string \<Rightarrow> world \<Rightarrow> string option \<times> world" where
  "socket_Listen env s url w =
     (let r = listen_res env url in (r, emit [E_Listen url r] w))"

definition socket_Dial :: "env \<Rightarrow> socket \<Rightarrow> string \<Rightarrow> world \<Rightarrow> string option \<times> world" where
  "socket_Dial env s url w =
     (let r = dial_res env url in (r, emit [E_Dial url r] w))"

definition socket_Send :: "env \<Rightarrow> socket \<Rightarrow> string \<Rightarrow> world \<Rightarrow> string option \<times> world" where
  "socket_Send env s bytes w =
     (let r = send_res env (n_sends (trace w)) bytes in (r, emit [E_Send bytes r] w))"

definition socket_Recv :: "env \<Rightarrow> socket \<Rightarrow> world \<Rightarrow> (string + string) \<times> world" where
  "socket_Recv env s w =
     (let r = recv_res env (n_recvs (trace w)) in (r, emit [E_Recv r] w))"

definition socket_Close :: "socket \<Rightarrow> world \<Rightarrow> world" where
  "socket_Close s w = emit [E_Close] w"

subsection \<open>The program\<close>

text \<open>\<^verbatim>\<open>newSocket\<close>: a failure of \<^verbatim>\<open>pair.NewSocket\<close> is fatal.\<close>

definition newSocket :: "env \<Rightarrow> world \<Rightarrow> socket outcome" where
  "newSocket env w =
     (case pair_NewSocket env w of
        (Inl err, w1) \<Rightarrow>
          log_Fatalf (''Node '' @ node w1 @ '': Cannot create socket: '' @ err @ ''\<newline>'') w1
      | (Inr socket, w1) \<Rightarrow>
          (let (socket, w2) = socket_AddTransport socket IPC w1;
               (socket, w3) = socket_AddTransport socket TCP w2;
               (socket, w4) = socket_SetOption socket OptionRecvDeadline (10 * Second) w3
           in Returned socket w4))"

text \<open>\<^verbatim>\<open>send\<close>: log, send, and exit when the send fails.\<close>

definition send :: "env \<Rightarrow> socket \<Rightarrow> string \<Rightarrow> world \<Rightarrow> unit outcome" where
  "send env socket message w =
     (let w1 = log_Printf (''Node '' @ node w @ '' sends '' @ message @ ''\<newline>'') w;
          (err, w2) = socket_Send env socket message w1
      in case err of
           Some e \<Rightarrow>
             log_Fatalf (''Node '' @ node w2 @ '' failed to send '' @ [CHR 0x27] @ message
                         @ [CHR 0x27] @ '': '' @ e @ ''\<newline>'') w2
         | None \<Rightarrow> Returned () w2)"

text \<open>\<^verbatim>\<open>receive\<close>: receive, exit when that fails, else log and return the message.\<close>

definition receive :: "env \<Rightarrow> socket \<Rightarrow> world \<Rightarrow> string outcome" where
  "receive env socket w =
     (case socket_Recv env socket w of
        (Inl e, w1) \<Rightarrow>
          log_Fatalf (''Node '' @ node w1 @ '' failed receiving a message: '' @ e @ ''\<newline>'') w1
      | (Inr bytes, w1) \<Rightarrow>
          (let message = bytes;
               w2 = log_Printf (''Node '' @ node w1 @ '' received '' @ message @ ''\<newline>'') w1
           in Returned message w2))"

text \<open>
  The loop of \<^verbatim>\<open>runNode\<close>, \<^verbatim>\<open>for i := 0; i < 3; i++\<close>, from the value \<open>i\<close> of the
  counter. The counter stays between 0 and 3, so its machine arithmetic never wraps. The
  message that \<^verbatim>\<open>receive\<close> returns is assigned to the blank identifier.
\<close>

function runNode_loop :: "env \<Rightarrow> socket \<Rightarrow> int \<Rightarrow> world \<Rightarrow> unit outcome" where
  "runNode_loop env socket i w =
     (if i < 3 then
        (case send env socket
                (''message '' @ fmt_d i @ '' from node '' @ node w @ ''.'') w of
           Exited w' \<Rightarrow> Exited w'
         | Panicked w' \<Rightarrow> Panicked w'
         | Returned u w1 \<Rightarrow>
             (case receive env socket w1 of
                Exited w' \<Rightarrow> Exited w'
              | Panicked w' \<Rightarrow> Panicked w'
              | Returned message w2 \<Rightarrow>
                  runNode_loop env socket (i + 1) (time_Sleep (1 * Second) w2)))
      else Returned () w)"
  by pat_completeness auto
termination
  by (relation "measure (\<lambda>(env, socket, i, w). nat (3 - i))") auto

text \<open>
  \<^verbatim>\<open>runNode\<close>. The statement \<^verbatim>\<open>defer socket.Close()\<close> is reached once listening or
  dialling has succeeded; from then on \<^verbatim>\<open>Close\<close> runs when \<^verbatim>\<open>runNode\<close> returns or
  panics, and does not run when the process exits inside a call.
\<close>

definition runNode :: "env \<Rightarrow> string \<Rightarrow> world \<Rightarrow> unit outcome" where
  "runNode env url w =
     (case newSocket env w of
        Exited w' \<Rightarrow> Exited w'
      | Panicked w' \<Rightarrow> Panicked w'
      | Returned socket w1 \<Rightarrow>
          (case
             (case socket_Listen env socket url w1 of
                (None, w2) \<Rightarrow> Returned () w2
              | (Some e, w2) \<Rightarrow>
                  (let w3 = log_Printf
                              (''Node '' @ node w2 @ '' cannot listen on socket '' @ [CHR 0x27]
                               @ url @ [CHR 0x27] @ '': '' @ e
                               @ ''\<newline>Trying to dial instead\<newline>'') w2
                   in case socket_Dial env socket url w3 of
                        (None, w4) \<Rightarrow> Returned () w4
                      | (Some e', w4) \<Rightarrow>
                          log_Fatalf
                            (''Node '' @ node w4 @ '' can neither listen nor dial on socket ''
                             @ [CHR 0x27] @ url @ [CHR 0x27] @ '': '' @ e' @ ''\<newline>'') w4))
           of
             Exited w' \<Rightarrow> Exited w'
           | Panicked w' \<Rightarrow> Panicked w'
           | Returned u w5 \<Rightarrow>
               (case runNode_loop env socket 0 w5 of
                  Exited w' \<Rightarrow> Exited w'
                | Panicked w' \<Rightarrow> Panicked (socket_Close socket w')
                | Returned u' w6 \<Rightarrow>
                    Returned ()
                      (socket_Close socket
                         (log_Printf (''Node '' @ node w6 @ '': Done.\<newline>'') w6)))))"

text \<open>
  \<^verbatim>\<open>main\<close> on the argument vector \<^verbatim>\<open>os.Args\<close>. Indexing an empty vector panics.
\<close>

definition main :: "env \<Rightarrow> string list \<Rightarrow> world \<Rightarrow> unit outcome" where
  "main env args w =
     (if length args \<le> 2 then
        (case args of
           [] \<Rightarrow> Panicked w
         | a0 # rest \<Rightarrow> Returned () (log_Printf (''Usage: '' @ a0 @ '' 0|1 <url>\<newline>'') w))
      else runNode env (args ! 2) (w\<lparr>node := args ! 1\<rparr>))"

definition init_world :: world where
  "init_world = \<lparr>node = [], trace = []\<rparr>"

subsection \<open>Observations on traces\<close>

text \<open>The events a call has added to the trace of the state \<open>w\<close> it started in.\<close>

definition events_since :: "world \<Rightarrow> 'a outcome \<Rightarrow> event list" where
  "events_since w out = drop (length (trace w)) (trace (world_of out))"

fun is_conn :: "event \<Rightarrow> bool" where
  "is_conn (E_Listen url r) = True"
| "is_conn (E_Dial url r) = True"
| "is_conn e = False"

fun is_io :: "event \<Rightarrow> bool" where
  "is_io (E_Send m r) = True"
| "is_io (E_Recv r) = True"
| "is_io e = False"

fun is_sleep :: "event \<Rightarrow> bool" where
  "is_sleep (E_Sleep d) = True"
| "is_sleep e = False"

fun payload_of :: "event \<Rightarrow> string list" where
  "payload_of (E_Send m r) = [m]"
| "payload_of e = []"

definition sent_payloads :: "event list \<Rightarrow> string list" where
  "sent_payloads evs = concat (map payload_of evs)"

text \<open>The last two elements of a list.\<close>

definition last_two :: "'a list \<Rightarrow> 'a list" where
  "last_two xs = drop (length xs - 2) xs"

fun is_ok :: "'e + 'a \<Rightarrow> bool" where
  "is_ok (Inr b) = True"
| "is_ok (Inl e) = False"

text \<open>
  Sends and receives alternate, beginning with a send, and a receive is attempted only
  after the send before it has succeeded (on a list of \<^verbatim>\<open>Send\<close> and \<^verbatim>\<open>Recv\<close> events).
\<close>

fun send_before_recv :: "event list \<Rightarrow> bool" where
  "send_before_recv [] = True"
| "send_before_recv [E_Send m r] = True"
| "send_before_recv (E_Send m None # E_Recv r # rest) = send_before_recv rest"
| "send_before_recv evs = False"

text \<open>
  A failed receive is followed by the diagnostic of \<^verbatim>\<open>receive\<close> and the exit of the process,
  and by nothing else.
\<close>

fun recv_failure_fatal :: "string \<Rightarrow> event list \<Rightarrow> bool" where
  "recv_failure_fatal nd [] = True"
| "recv_failure_fatal nd (E_Recv (Inl e) # rest) =
     (rest = [E_Log (''Node '' @ nd @ '' failed receiving a message: '' @ e @ ''\<newline>''),
              E_Exit 1])"
| "recv_failure_fatal nd (ev # rest) = recv_failure_fatal nd rest"

text \<open>
  A failed send is followed by the diagnostic of \<^verbatim>\<open>send\<close>, which quotes the payload, and
  the exit of the process, and by nothing else.
\<close>

fun send_failure_fatal :: "string \<Rightarrow> event list \<Rightarrow> bool" where
  "send_failure_fatal nd [] = True"
| "send_failure_fatal nd (E_Send m (Some e) # rest) =
     (rest = [E_Log (''Node '' @ nd @ '' failed to send '' @ [CHR 0x27] @ m @ [CHR 0x27]
                     @ '': '' @ e @ ''\<newline>''),
              E_Exit 1])"
| "send_failure_fatal nd (ev # rest) = send_failure_fatal nd rest"

text \<open>
  Every successful receive is followed by its log line and a sleep of one second, and
  there is no other sleep.
\<close>

fun paced :: "event list \<Rightarrow> bool" where
  "paced [] = True"
| "paced (E_Recv (Inr b) # rest) =
     (case rest of
        E_Log l # E_Sleep d # rest' \<Rightarrow> d = 1 * Second \<and> paced rest'
      | _ \<Rightarrow> False)"
| "paced (E_Sleep d # rest) = False"
| "paced (ev # rest) = paced rest"

subsection \<open>The texts the program formats\<close>

text \<open>
  The format strings of the program with their arguments filled in, named so that the
  proofs can keep them folded. The lemmas \<open>newSocket_eq\<close>, \<open>send_eq\<close>, \<open>receive_eq\<close>,
  \<open>loop_step\<close> and \<open>runNode_eq\<close> below tie each to the place in the program that
  formats it.
\<close>

definition payload :: "string \<Rightarrow> int \<Rightarrow> string" where
  "payload nd i = ''message '' @ fmt_d i @ '' from node '' @ nd @ ''.''"

definition line_no_socket :: "string \<Rightarrow> string \<Rightarrow> string" where
  "line_no_socket nd e = ''Node '' @ nd @ '': Cannot create socket: '' @ e @ ''\<newline>''"

definition line_sends :: "string \<Rightarrow> string \<Rightarrow> string" where
  "line_sends nd m = ''Node '' @ nd @ '' sends '' @ m @ ''\<newline>''"

definition line_send_failed :: "string \<Rightarrow> string \<Rightarrow> string \<Rightarrow> string" where
  "line_send_failed nd m e =
     ''Node '' @ nd @ '' failed to send '' @ [CHR 0x27] @ m @ [CHR 0x27] @ '': '' @ e
     @ ''\<newline>''"

definition line_recv_failed :: "string \<Rightarrow> string \<Rightarrow> string" where
  "line_recv_failed nd e = ''Node '' @ nd @ '' failed receiving a message: '' @ e @ ''\<newline>''"

definition line_received :: "string \<Rightarrow> string \<Rightarrow> string" where
  "line_received nd b = ''Node '' @ nd @ '' received '' @ b @ ''\<newline>''"

definition line_no_listen :: "string \<Rightarrow> string \<Rightarrow> string \<Rightarrow> string" where
  "line_no_listen nd url e =
     ''Node '' @ nd @ '' cannot listen on socket '' @ [CHR 0x27] @ url @ [CHR 0x27] @ '': '' @ e
     @ ''\<newline>Trying to dial instead\<newline>''"

definition line_no_dial :: "string \<Rightarrow> string \<Rightarrow> string \<Rightarrow> string" where
  "line_no_dial nd url e =
     ''Node '' @ nd @ '' can neither listen nor dial on socket '' @ [CHR 0x27] @ url
     @ [CHR 0x27] @ '': '' @ e @ ''\<newline>''"

definition line_done :: "string \<Rightarrow> string" where
  "line_done nd = ''Node '' @ nd @ '': Done.\<newline>''"

text \<open>The socket \<^verbatim>\<open>newSocket\<close> returns, and the events of its construction.\<close>

definition pair_socket :: socket where
  "pair_socket = \<lparr>sk_protocol = PAIR, sk_transports = [IPC, TCP],
                   sk_recv_deadline = Some (10 * Second)\<rparr>"

definition setup_events :: "event list" where
  "setup_events = [E_NewSocket None, E_AddTransport IPC, E_AddTransport TCP,
                   E_SetOption OptionRecvDeadline (10 * Second)]"

subsection \<open>The events of each stage of a run\<close>

text \<open>
  Names for the groups of events a run is made of, used to state which paths
  \<^verbatim>\<open>runNode\<close> can take: a failed construction; listening; dialling after a failed
  listen; neither; one complete round trip of the loop; a round that ends in a failed
  send, or in a failed receive; the end of \<^verbatim>\<open>runNode\<close>.
\<close>

definition no_socket_events :: "string \<Rightarrow> string \<Rightarrow> event list" where
  "no_socket_events nd e = [E_NewSocket (Some e), E_Log (line_no_socket nd e), E_Exit 1]"

definition listen_events :: "string \<Rightarrow> event list" where
  "listen_events url = setup_events @ [E_Listen url None]"

definition dial_events :: "string \<Rightarrow> string \<Rightarrow> string \<Rightarrow> event list" where
  "dial_events nd url e =
     setup_events @ [E_Listen url (Some e), E_Log (line_no_listen nd url e), E_Dial url None]"

definition no_peer_events :: "string \<Rightarrow> string \<Rightarrow> string \<Rightarrow> string \<Rightarrow> event list" where
  "no_peer_events nd url e e' =
     setup_events @ [E_Listen url (Some e), E_Log (line_no_listen nd url e),
                     E_Dial url (Some e'), E_Log (line_no_dial nd url e'), E_Exit 1]"

definition round_events :: "string \<Rightarrow> int \<Rightarrow> string \<Rightarrow> event list" where
  "round_events nd i b =
     [E_Log (line_sends nd (payload nd i)), E_Send (payload nd i) None, E_Recv (Inr b),
      E_Log (line_received nd b), E_Sleep Second]"

definition send_fail_events :: "string \<Rightarrow> int \<Rightarrow> string \<Rightarrow> event list" where
  "send_fail_events nd i e =
     [E_Log (line_sends nd (payload nd i)), E_Send (payload nd i) (Some e),
      E_Log (line_send_failed nd (payload nd i) e), E_Exit 1]"

definition recv_fail_events :: "string \<Rightarrow> int \<Rightarrow> string \<Rightarrow> event list" where
  "recv_fail_events nd i e =
     [E_Log (line_sends nd (payload nd i)), E_Send (payload nd i) None, E_Recv (Inl e),
      E_Log (line_recv_failed nd e), E_Exit 1]"

definition done_events :: "string \<Rightarrow> event list" where
  "done_events nd = [E_Log (line_done nd), E_Close]"

text \<open>What \<^verbatim>\<open>runNode\<close> does with the outcome of its loop.\<close>

definition finish :: "unit outcome \<Rightarrow> unit outcome" where
  "finish out =
     (case out of
        Exited w \<Rightarrow> Exited w
      | Panicked w \<Rightarrow> Panicked (emit [E_Close] w)
      | Returned u w \<Rightarrow> Returned () (emit (done_events (node w)) w))"

subsection \<open>Concrete runs\<close>

text \<open>
  A peer that answers every message; an address that is already taken, so that the node
  dials; no peer at all; a connection that breaks at the second send; a peer that falls
  silent before the third reply; a peer that never replies; a library that cannot build
  a socket.
\<close>

definition env_ok :: env where
  "env_ok = \<lparr>new_socket_res = None, listen_res = (\<lambda>url. None), dial_res = (\<lambda>url. None),
             send_res = (\<lambda>k m. None),
             recv_res = (\<lambda>k. Inr (''message '' @ decimal k @ '' from node 1.''))\<rparr>"

definition env_dialer :: env where
  "env_dialer = env_ok\<lparr>listen_res := (\<lambda>url. Some ''address already in use'')\<rparr>"

definition env_no_peer :: env where
  "env_no_peer = env_dialer\<lparr>dial_res := (\<lambda>url. Some ''connection refused'')\<rparr>"

definition env_send_fails :: env where
  "env_send_fails =
     env_ok\<lparr>send_res := (\<lambda>k m. if k = 1 then Some ''connection closed'' else None)\<rparr>"

definition env_recv_timeout :: env where
  "env_recv_timeout =
     env_ok\<lparr>recv_res := (\<lambda>k. if k = 2 then Inl ''receive time out''
                                else Inr (''message '' @ decimal k @ '' from node 1.''))\<rparr>"

definition env_silent :: env where
  "env_silent = env_ok\<lparr>recv_res := (\<lambda>k. Inl ''receive time out'')\<rparr>"

definition env_no_socket :: env where
  "env_no_socket = env_ok\<lparr>new_socket_res := Some ''out of memory''\<rparr>"

definition url0 :: string where
  "url0 = ''tcp://localhost:54545''"

definition node0_world :: world where
  "node0_world = \<lparr>node = ''0'', trace = []\<rparr>"

subsection \<open>Each function, in terms of the answers of the environment\<close>

declare runNode_loop.simps [simp del]

declare decimal.simps [simp del]

lemma node_emit [simp]: "node (emit evs w) = node w"
  by (simp add: emit_def)

lemma trace_emit [simp]: "trace (emit evs w) = trace w @ evs"
  by (simp add: emit_def)

lemma emit_emit [simp]: "emit evs (emit evs' w) = emit (evs' @ evs) w"
  by (simp add: emit_def)

lemma n_sends_simps [simp]:
  "n_sends [] = 0"
  "n_sends (e # evs) = (if is_send e then 1 else 0) + n_sends evs"
  "n_sends (xs @ ys) = n_sends xs + n_sends ys"
  by (simp_all add: n_sends_def)

lemma n_recvs_simps [simp]:
  "n_recvs [] = 0"
  "n_recvs (e # evs) = (if is_recv e then 1 else 0) + n_recvs evs"
  "n_recvs (xs @ ys) = n_recvs xs + n_recvs ys"
  by (simp_all add: n_recvs_def)

lemma events_since_emit [simp]:
  "events_since w (Exited (emit evs w)) = evs"
  "events_since w (Returned a (emit evs w)) = evs"
  "events_since w (Panicked (emit evs w)) = evs"
  by (simp_all add: events_since_def)

lemma fmt_d_small [simp]: "fmt_d 0 = ''0''" "fmt_d 1 = ''1''" "fmt_d 2 = ''2''"
  by (simp_all add: fmt_d_def decimal.simps)

lemma newSocket_eq:
  "newSocket env w =
     (case new_socket_res env of
        Some e \<Rightarrow> Exited (emit [E_NewSocket (Some e), E_Log (line_no_socket (node w) e),
                                E_Exit 1] w)
      | None \<Rightarrow> Returned pair_socket (emit setup_events w))"
  by (simp add: newSocket_def pair_NewSocket_def socket_AddTransport_def log_Fatalf_def
      log_Printf_def line_no_socket_def pair_socket_def setup_events_def split: option.splits)

lemma send_eq:
  "send env s m w =
     (case send_res env (n_sends (trace w)) m of
        None \<Rightarrow> Returned () (emit [E_Log (line_sends (node w) m), E_Send m None] w)
      | Some e \<Rightarrow> Exited (emit [E_Log (line_sends (node w) m), E_Send m (Some e),
                                E_Log (line_send_failed (node w) m e), E_Exit 1] w))"
  by (simp add: send_def socket_Send_def log_Fatalf_def log_Printf_def Let_def
      line_sends_def line_send_failed_def split: option.splits)

lemma receive_eq:
  "receive env s w =
     (case recv_res env (n_recvs (trace w)) of
        Inl e \<Rightarrow> Exited (emit [E_Recv (Inl e), E_Log (line_recv_failed (node w) e),
                               E_Exit 1] w)
      | Inr b \<Rightarrow> Returned b (emit [E_Recv (Inr b), E_Log (line_received (node w) b)] w))"
  by (simp add: receive_def socket_Recv_def log_Fatalf_def log_Printf_def Let_def
      line_recv_failed_def line_received_def split: sum.splits)

lemma loop_done: "\<not> i < 3 \<Longrightarrow> runNode_loop env s i w = Returned () w"
  by (simp add: runNode_loop.simps)

lemma loop_step:
  "i < 3 \<Longrightarrow> runNode_loop env s i w =
     (case send_res env (n_sends (trace w)) (payload (node w) i) of
        Some e \<Rightarrow> Exited (emit [E_Log (line_sends (node w) (payload (node w) i)),
                                E_Send (payload (node w) i) (Some e),
                                E_Log (line_send_failed (node w) (payload (node w) i) e),
                                E_Exit 1] w)
      | None \<Rightarrow>
          (case recv_res env (n_recvs (trace w)) of
             Inl e \<Rightarrow> Exited (emit [E_Log (line_sends (node w) (payload (node w) i)),
                                    E_Send (payload (node w) i) None, E_Recv (Inl e),
                                    E_Log (line_recv_failed (node w) e), E_Exit 1] w)
           | Inr b \<Rightarrow> runNode_loop env s (i + 1)
                        (emit [E_Log (line_sends (node w) (payload (node w) i)),
                               E_Send (payload (node w) i) None, E_Recv (Inr b),
                               E_Log (line_received (node w) b), E_Sleep Second] w)))"
  by (subst runNode_loop.simps)
     (simp add: send_eq receive_eq time_Sleep_def payload_def split: option.splits sum.splits)

lemma runNode_eq:
  "runNode env url w =
     (case newSocket env w of
        Exited w' \<Rightarrow> Exited w'
      | Panicked w' \<Rightarrow> Panicked w'
      | Returned s w1 \<Rightarrow>
          (case listen_res env url of
             None \<Rightarrow>
               (case runNode_loop env s 0 (emit [E_Listen url None] w1) of
                  Exited w' \<Rightarrow> Exited w'
                | Panicked w' \<Rightarrow> Panicked (emit [E_Close] w')
                | Returned u w6 \<Rightarrow>
                    Returned () (emit [E_Log (line_done (node w6)), E_Close] w6))
           | Some e \<Rightarrow>
               (case dial_res env url of
                  None \<Rightarrow>
                    (case runNode_loop env s 0
                            (emit [E_Listen url (Some e), E_Log (line_no_listen (node w1) url e),
                                   E_Dial url None] w1) of
                       Exited w' \<Rightarrow> Exited w'
                     | Panicked w' \<Rightarrow> Panicked (emit [E_Close] w')
                     | Returned u w6 \<Rightarrow>
                         Returned () (emit [E_Log (line_done (node w6)), E_Close] w6))
                | Some e' \<Rightarrow>
                    Exited (emit [E_Listen url (Some e), E_Log (line_no_listen (node w1) url e),
                                  E_Dial url (Some e'), E_Log (line_no_dial (node w1) url e'),
                                  E_Exit 1] w1))))"
  by (simp add: runNode_def socket_Listen_def socket_Dial_def log_Fatalf_def log_Printf_def
      socket_Close_def Let_def line_done_def line_no_listen_def line_no_dial_def
      split: option.splits outcome.splits)

lemmas run_simps = runNode_eq newSocket_eq loop_step loop_done setup_events_def

lemmas env_defs = env_ok_def env_dialer_def env_no_peer_def env_send_fails_def
  env_recv_timeout_def env_silent_def env_no_socket_def node0_world_def

subsection \<open>The paths of a run\<close>

text \<open>
  A run of \<^verbatim>\<open>runNode\<close> takes one of sixteen paths: the socket cannot be built; neither
  listening nor dialling succeeds; or the node listens or dials, and then the loop ends in
  one of seven ways, at a failed send or receive of one of the three rounds or after all
  three. Each path fixes the outcome and the events of the run.
\<close>

lemma finish_simps [simp]:
  "finish (Exited w) = Exited w"
  "finish (Panicked w) = Panicked (emit [E_Close] w)"
  "finish (Returned u w) = Returned () (emit (done_events (node w)) w)"
  by (simp_all add: finish_def)

lemma runNode_connect:
  "runNode env url w =
     (case new_socket_res env of
        Some e \<Rightarrow> Exited (emit (no_socket_events (node w) e) w)
      | None \<Rightarrow>
          (case listen_res env url of
             None \<Rightarrow> finish (runNode_loop env pair_socket 0 (emit (listen_events url) w))
           | Some e \<Rightarrow>
               (case dial_res env url of
                  None \<Rightarrow>
                    finish (runNode_loop env pair_socket 0 (emit (dial_events (node w) url e) w))
                | Some e' \<Rightarrow> Exited (emit (no_peer_events (node w) url e e') w))))"
  by (simp add: runNode_eq newSocket_eq finish_def listen_events_def dial_events_def
      no_peer_events_def no_socket_events_def done_events_def
      split: option.splits outcome.splits)

lemma loop_paths:
  "(\<exists>e. send_res env (n_sends (trace w)) (payload (node w) 0) = Some e
        \<and> runNode_loop env s 0 w = Exited (emit (send_fail_events (node w) 0 e) w))
   \<or> (\<exists>e. send_res env (n_sends (trace w)) (payload (node w) 0) = None
        \<and> recv_res env (n_recvs (trace w)) = Inl e
        \<and> runNode_loop env s 0 w = Exited (emit (recv_fail_events (node w) 0 e) w))
   \<or> (\<exists>b0 e. send_res env (n_sends (trace w)) (payload (node w) 0) = None
        \<and> recv_res env (n_recvs (trace w)) = Inr b0
        \<and> send_res env (Suc (n_sends (trace w))) (payload (node w) 1) = Some e
        \<and> runNode_loop env s 0 w =
            Exited (emit (round_events (node w) 0 b0 @ send_fail_events (node w) 1 e) w))
   \<or> (\<exists>b0 e. send_res env (n_sends (trace w)) (payload (node w) 0) = None
        \<and> recv_res env (n_recvs (trace w)) = Inr b0
        \<and> send_res env (Suc (n_sends (trace w))) (payload (node w) 1) = None
        \<and> recv_res env (Suc (n_recvs (trace w))) = Inl e
        \<and> runNode_loop env s 0 w =
            Exited (emit (round_events (node w) 0 b0 @ recv_fail_events (node w) 1 e) w))
   \<or> (\<exists>b0 b1 e. send_res env (n_sends (trace w)) (payload (node w) 0) = None
        \<and> recv_res env (n_recvs (trace w)) = Inr b0
        \<and> send_res env (Suc (n_sends (trace w))) (payload (node w) 1) = None
        \<and> recv_res env (Suc (n_recvs (trace w))) = Inr b1
        \<and> send_res env (Suc (Suc (n_sends (trace w)))) (payload (node w) 2) = Some e
        \<and> runNode_loop env s 0 w =
            Exited (emit (round_events (node w) 0 b0 @ round_events (node w) 1 b1
                          @ send_fail_events (node w) 2 e) w))
   \<or> (\<exists>b0 b1 e. send_res env (n_sends (trace w)) (payload (node w) 0) = None
        \<and> recv_res env (n_recvs (trace w)) = Inr b0
        \<and> send_res env (Suc (n_sends (trace w))) (payload (node w) 1) = None
        \<and> recv_res env (Suc (n_recvs (trace w))) = Inr b1
        \<and> send_res env (Suc (Suc (n_sends (trace w)))) (payload (node w) 2) = None
        \<and> recv_res env (Suc (Suc (n_recvs (trace w)))) = Inl e
        \<and> runNode_loop env s 0 w =
            Exited (emit (round_events (node w) 0 b0 @ round_events (node w) 1 b1
                          @ recv_fail_events (node w) 2 e) w))
   \<or> (\<exists>b0 b1 b2. send_res env (n_sends (trace w)) (payload (node w) 0) = None
        \<and> recv_res env (n_recvs (trace w)) = Inr b0
        \<and> send_res env (Suc (n_sends (trace w))) (payload (node w) 1) = None
        \<and> recv_res env (Suc (n_recvs (trace w))) = Inr b1
        \<and> send_res env (Suc (Suc (n_sends (trace w)))) (payload (node w) 2) = None
        \<and> recv_res env (Suc (Suc (n_recvs (trace w)))) = Inr b2
        \<and> runNode_loop env s 0 w =
            Returned () (emit (round_events (node w) 0 b0 @ round_events (node w) 1 b1
                               @ round_events (node w) 2 b2) w))"
  by (simp add: loop_step loop_done round_events_def send_fail_events_def recv_fail_events_def
      split: option.splits sum.splits)

lemma quiet_prefix [simp]:
  "n_sends (listen_events url) = 0" "n_recvs (listen_events url) = 0"
  "n_sends (dial_events nd url e) = 0" "n_recvs (dial_events nd url e) = 0"
  by (simp_all add: listen_events_def dial_events_def setup_events_def)

lemma runNode_paths:
  "(\<exists>e. new_socket_res env = Some e
        \<and> runNode env url w = Exited (emit (no_socket_events (node w) e) w))
   \<or> (\<exists>e e'. new_socket_res env = None \<and> listen_res env url = Some e
        \<and> dial_res env url = Some e'
        \<and> runNode env url w = Exited (emit (no_peer_events (node w) url e e') w))
   \<or> (\<exists>pre. new_socket_res env = None
        \<and> (listen_res env url = None \<and> pre = listen_events url
            \<or> (\<exists>e. listen_res env url = Some e \<and> dial_res env url = None
                    \<and> pre = dial_events (node w) url e))
        \<and> ((\<exists>e. send_res env (n_sends (trace w)) (payload (node w) 0) = Some e
        \<and> runNode env url w = Exited (emit (pre @ send_fail_events (node w) 0 e) w))
   \<or> (\<exists>e. send_res env (n_sends (trace w)) (payload (node w) 0) = None
        \<and> recv_res env (n_recvs (trace w)) = Inl e
        \<and> runNode env url w = Exited (emit (pre @ recv_fail_events (node w) 0 e) w))
   \<or> (\<exists>b0 e. send_res env (n_sends (trace w)) (payload (node w) 0) = None
        \<and> recv_res env (n_recvs (trace w)) = Inr b0
        \<and> send_res env (Suc (n_sends (trace w))) (payload (node w) 1) = Some e
        \<and> runNode env url w =
            Exited (emit (pre @ round_events (node w) 0 b0 @ send_fail_events (node w) 1 e) w))
   \<or> (\<exists>b0 e. send_res env (n_sends (trace w)) (payload (node w) 0) = None
        \<and> recv_res env (n_recvs (trace w)) = Inr b0
        \<and> send_res env (Suc (n_sends (trace w))) (payload (node w) 1) = None
        \<and> recv_res env (Suc (n_recvs (trace w))) = Inl e
        \<and> runNode env url w =
            Exited (emit (pre @ round_events (node w) 0 b0 @ recv_fail_events (node w) 1 e) w))
   \<or> (\<exists>b0 b1 e. send_res env (n_sends (trace w)) (payload (node w) 0) = None
        \<and> recv_res env (n_recvs (trace w)) = Inr b0
        \<and> send_res env (Suc (n_sends (trace w))) (payload (node w) 1) = None
        \<and> recv_res env (Suc (n_recvs (trace w))) = Inr b1
        \<and> send_res env (Suc (Suc (n_sends (trace w)))) (payload (node w) 2) = Some e
        \<and> runNode env url w =
            Exited (emit (pre @ round_events (node w) 0 b0 @ round_events (node w) 1 b1
                          @ send_fail_events (node w) 2 e) w))
   \<or> (\<exists>b0 b1 e. send_res env (n_sends (trace w)) (payload (node w) 0) = None
        \<and> recv_res env (n_recvs (trace w)) = Inr b0
        \<and> send_res env (Suc (n_sends (trace w))) (payload (node w) 1) = None
        \<and> recv_res env (Suc (n_recvs (trace w))) = Inr b1
        \<and> send_res env (Suc (Suc (n_sends (trace w)))) (payload (node w) 2) = None
        \<and> recv_res env (Suc (Suc (n_recvs (trace w)))) = Inl e
        \<and> runNode env url w =
            Exited (emit (pre @ round_events (node w) 0 b0 @ round_events (node w) 1 b1
                          @ recv_fail_events (node w) 2 e) w))
   \<or> (\<exists>b0 b1 b2. send_res env (n_sends (trace w)) (payload (node w) 0) = None
        \<and> recv_res env (n_recvs (trace w)) = Inr b0
        \<and> send_res env (Suc (n_sends (trace w))) (payload (node w) 1) = None
        \<and> recv_res env (Suc (n_recvs (trace w))) = Inr b1
        \<and> send_res env (Suc (Suc (n_sends (trace w)))) (payload (node w) 2) = None
        \<and> recv_res env (Suc (Suc (n_recvs (trace w)))) = Inr b2
        \<and> runNode env url w =
            Returned () (emit (pre @ round_events (node w) 0 b0 @ round_events (node w) 1 b1
                               @ round_events (node w) 2 b2 @ done_events (node w)) w))))"
proof (cases "new_socket_res env")
  case (Some e)
  then show ?thesis
    by (simp add: runNode_connect)
next
  case sock: None
  show ?thesis
  proof (cases "listen_res env url")
    case None
    with sock have run: "runNode env url w
        = finish (runNode_loop env pair_socket 0 (emit (listen_events url) w))"
      by (simp add: runNode_connect)
    from loop_paths [of env "emit (listen_events url) w" pair_socket] show ?thesis
      by (elim disjE exE conjE) (simp_all add: run sock None)
  next
    case listen: (Some e)
    show ?thesis
    proof (cases "dial_res env url")
      case None
      with sock listen have run: "runNode env url w
          = finish (runNode_loop env pair_socket 0 (emit (dial_events (node w) url e) w))"
        by (simp add: runNode_connect)
      from loop_paths [of env "emit (dial_events (node w) url e) w" pair_socket] show ?thesis
        by (elim disjE exE conjE) (simp_all add: run sock None listen)
    next
      case (Some e')
      with sock listen show ?thesis
        by (simp add: runNode_connect)
    qed
  qed
qed

lemmas path_defs = no_socket_events_def listen_events_def dial_events_def no_peer_events_def
  round_events_def send_fail_events_def recv_fail_events_def done_events_def setup_events_def

lemma send_failure_fatal_fold:
  "send_failure_fatal nd (E_Send m (Some e) # rest) =
     (rest = [E_Log (line_send_failed nd m e), E_Exit 1])"
  by (simp add: line_send_failed_def)

lemma recv_failure_fatal_fold:
  "recv_failure_fatal nd (E_Recv (Inl e) # rest) =
     (rest = [E_Log (line_recv_failed nd e), E_Exit 1])"
  by (simp add: line_recv_failed_def)

lemma node_runNode: "node (world_of (runNode env url w)) = node w"
  using runNode_paths [of env url w]
  by (elim disjE exE conjE) simp_all

lemma payload_small:
  "payload nd 0 = ''message 0 from node '' @ nd @ ''.''"
  "payload nd 1 = ''message 1 from node '' @ nd @ ''.''"
  "payload nd 2 = ''message 2 from node '' @ nd @ ''.''"
  by (simp_all add: payload_def)

lemma is_ok_Inr: "is_ok x \<Longrightarrow> x = Inr (projr x)"
  by (cases x) simp_all

lemma main_empty_args: "main env [] w = Panicked w"
  by (simp add: main_def)

section \<open>The claims\<close>

subsection \<open>C4: the socket factory\<close>

text \<open>
  C4. Every socket that \<^verbatim>\<open>newSocket\<close> returns speaks the pair pattern, has the IPC and
  the TCP transport enabled and a receive deadline of ten seconds, and the factory has
  made exactly the four library calls that set this up. When the library builds a socket,
  \<^verbatim>\<open>newSocket\<close> returns one. When the library fails to build it, the process logs
  \<^verbatim>\<open>Node <role>: Cannot create socket: <error>\<close> and exits at once with status 1.
\<close>

theorem newSocket_configured:
  "(\<forall>s w'. newSocket env w = Returned s w' \<longrightarrow>
      sk_protocol s = PAIR \<and> sk_transports s = [IPC, TCP]
      \<and> sk_recv_deadline s = Some (10 * Second)
      \<and> events_since w (Returned s w') =
          [E_NewSocket None, E_AddTransport IPC, E_AddTransport TCP,
           E_SetOption OptionRecvDeadline (10 * Second)])
   \<and> (new_socket_res env = None \<longrightarrow> is_Returned (newSocket env w))
   \<and> (\<forall>e. new_socket_res env = Some e \<longrightarrow>
        newSocket env w =
          Exited (emit [E_NewSocket (Some e),
                        E_Log (''Node '' @ node w @ '': Cannot create socket: '' @ e @ ''\<newline>''),
                        E_Exit 1] w))"
  by (auto simp add: newSocket_eq pair_socket_def setup_events_def line_no_socket_def
      split: option.splits)

theorem newSocket_configured_witness:
  "newSocket env_ok node0_world = Returned pair_socket (emit setup_events node0_world)
   \<and> sk_protocol pair_socket = PAIR \<and> sk_transports pair_socket = [IPC, TCP]
   \<and> sk_recv_deadline pair_socket = Some 10000000000
   \<and> new_socket_res env_ok = None \<and> is_Returned (newSocket env_ok node0_world)
   \<and> new_socket_res env_no_socket = Some ''out of memory''
   \<and> newSocket env_no_socket node0_world =
       Exited (emit [E_NewSocket (Some ''out of memory''),
                     E_Log ''Node 0: Cannot create socket: out of memory\<newline>'',
                     E_Exit 1] node0_world)"
proof -
  have made: "newSocket env_ok node0_world = Returned pair_socket (emit setup_events node0_world)"
    by (simp add: newSocket_eq env_defs)
  have ok: "new_socket_res env_ok = None"
    by (simp add: env_defs)
  have bad: "new_socket_res env_no_socket = Some ''out of memory''"
    by (simp add: env_defs)
  have nd: "node node0_world = ''0''"
    by (simp add: node0_world_def)
  note thm_ok = newSocket_configured [where env = env_ok and w = node0_world]
  note thm_bad = newSocket_configured [where env = env_no_socket and w = node0_world]
  from thm_ok made have cfg:
    "sk_protocol pair_socket = PAIR \<and> sk_transports pair_socket = [IPC, TCP]
     \<and> sk_recv_deadline pair_socket = Some (10 * Second)"
    by blast
  from thm_ok ok have ret: "is_Returned (newSocket env_ok node0_world)"
    by blast
  from thm_bad bad have
    "newSocket env_no_socket node0_world =
       Exited (emit [E_NewSocket (Some ''out of memory''),
                     E_Log (''Node '' @ node node0_world @ '': Cannot create socket: ''
                            @ ''out of memory'' @ ''\<newline>''),
                     E_Exit 1] node0_world)"
    by blast
  then have ex:
    "newSocket env_no_socket node0_world =
       Exited (emit [E_NewSocket (Some ''out of memory''),
                     E_Log ''Node 0: Cannot create socket: out of memory\<newline>'',
                     E_Exit 1] node0_world)"
    by (simp add: nd)
  from cfg have "sk_recv_deadline pair_socket = Some 10000000000"
    by (simp add: Second_def)
  with made cfg ok ret bad ex show ?thesis
    by blast
qed

subsection \<open>C1: when the socket is closed\<close>

text \<open>
  C1, as stated, says that \<^verbatim>\<open>runNode\<close> closes the socket on every exit path, the fatal
  ones included. It does not: \<^verbatim>\<open>log.Fatalf\<close> ends the process inside the call, and the
  deferred \<^verbatim>\<open>Close\<close> never runs. In the run below the second send fails; the process
  exits and the trace holds no \<^verbatim>\<open>Close\<close>.
\<close>

theorem runNode_send_failure_skips_close:
  "is_Exited (runNode env_send_fails url0 node0_world)
   \<and> E_Close \<notin> set (trace (world_of (runNode env_send_fails url0 node0_world)))"
  by (simp add: run_simps env_defs)

text \<open>
  C1, amended. \<^verbatim>\<open>runNode\<close> closes the socket exactly when it returns: \<^verbatim>\<open>Close\<close> is then
  its last action and happens once. On every other path the process has exited through
  \<^verbatim>\<open>log.Fatalf\<close>: the exit with status 1 is the last event and the socket has not been
  closed. \<^verbatim>\<open>runNode\<close> never panics.
\<close>

theorem runNode_closes_only_on_return:
  "(case runNode env url w of
      Returned u w' \<Rightarrow>
        last (trace w') = E_Close
        \<and> length (filter (\<lambda>e. e = E_Close) (events_since w (runNode env url w))) = 1
    | Exited w' \<Rightarrow>
        E_Close \<notin> set (events_since w (runNode env url w)) \<and> last (trace w') = E_Exit 1
    | Panicked w' \<Rightarrow> False)"
  using runNode_paths [of env url w]
  by (elim disjE exE conjE) (simp_all add: path_defs)

theorem runNode_closes_only_on_return_witness:
  "is_Returned (runNode env_ok url0 node0_world)
   \<and> last (trace (world_of (runNode env_ok url0 node0_world))) = E_Close
   \<and> is_Exited (runNode env_recv_timeout url0 node0_world)
   \<and> last (trace (world_of (runNode env_recv_timeout url0 node0_world))) = E_Exit 1
   \<and> E_Close \<notin> set (events_since node0_world (runNode env_recv_timeout url0 node0_world))"
proof -
  have ret: "is_Returned (runNode env_ok url0 node0_world)"
    by (simp add: run_simps env_defs)
  have ex: "is_Exited (runNode env_recv_timeout url0 node0_world)"
    by (simp add: run_simps env_defs)
  from ret runNode_closes_only_on_return [where env = env_ok and url = url0 and w = node0_world]
  have a: "last (trace (world_of (runNode env_ok url0 node0_world))) = E_Close"
    by (cases "runNode env_ok url0 node0_world") simp_all
  from ex runNode_closes_only_on_return [where env = env_recv_timeout and url = url0 and w = node0_world]
  have b: "last (trace (world_of (runNode env_recv_timeout url0 node0_world))) = E_Exit 1
           \<and> E_Close \<notin> set (events_since node0_world (runNode env_recv_timeout url0 node0_world))"
    by (cases "runNode env_recv_timeout url0 node0_world") simp_all
  from ret ex a b show ?thesis
    by blast
qed

subsection \<open>C2: listen first, dial once\<close>

text \<open>
  C2. Once the socket exists, the first thing \<^verbatim>\<open>runNode\<close> does is \<^verbatim>\<open>Listen\<close> on the
  address. When that succeeds there is no \<^verbatim>\<open>Dial\<close> in the run. When it fails, the
  process logs the failure and calls \<^verbatim>\<open>Dial\<close> on the same address, once, and there is no
  other \<^verbatim>\<open>Listen\<close> or \<^verbatim>\<open>Dial\<close> in the run. When the \<^verbatim>\<open>Dial\<close> fails as well, the
  process logs \<^verbatim>\<open>Node <role> can neither listen nor dial on socket '<address>': <error>\<close>
  and exits with status 1, and the run consists of these events only.
\<close>

theorem runNode_listen_then_dial:
  "new_socket_res env = None \<Longrightarrow>
   (listen_res env url = None \<longrightarrow>
      take 5 (events_since w (runNode env url w)) =
        [E_NewSocket None, E_AddTransport IPC, E_AddTransport TCP,
         E_SetOption OptionRecvDeadline (10 * Second), E_Listen url None]
      \<and> filter is_conn (events_since w (runNode env url w)) = [E_Listen url None])
   \<and> (\<forall>e. listen_res env url = Some e \<longrightarrow>
        take 7 (events_since w (runNode env url w)) =
          [E_NewSocket None, E_AddTransport IPC, E_AddTransport TCP,
           E_SetOption OptionRecvDeadline (10 * Second), E_Listen url (Some e),
           E_Log (''Node '' @ node w @ '' cannot listen on socket '' @ [CHR 0x27] @ url
                  @ [CHR 0x27] @ '': '' @ e @ ''\<newline>Trying to dial instead\<newline>''),
           E_Dial url (dial_res env url)]
        \<and> filter is_conn (events_since w (runNode env url w)) =
            [E_Listen url (Some e), E_Dial url (dial_res env url)])
   \<and> (\<forall>e e'. listen_res env url = Some e \<longrightarrow> dial_res env url = Some e' \<longrightarrow>
        runNode env url w =
          Exited (emit [E_NewSocket None, E_AddTransport IPC, E_AddTransport TCP,
                        E_SetOption OptionRecvDeadline (10 * Second), E_Listen url (Some e),
                        E_Log (''Node '' @ node w @ '' cannot listen on socket '' @ [CHR 0x27]
                               @ url @ [CHR 0x27] @ '': '' @ e
                               @ ''\<newline>Trying to dial instead\<newline>''),
                        E_Dial url (Some e'),
                        E_Log (''Node '' @ node w @ '' can neither listen nor dial on socket ''
                               @ [CHR 0x27] @ url @ [CHR 0x27] @ '': '' @ e' @ ''\<newline>''),
                        E_Exit 1] w))"
proof -
  assume sock: "new_socket_res env = None"
  have "(listen_res env url = None \<longrightarrow>
      take 5 (events_since w (runNode env url w)) =
        [E_NewSocket None, E_AddTransport IPC, E_AddTransport TCP,
         E_SetOption OptionRecvDeadline (10 * Second), E_Listen url None]
      \<and> filter is_conn (events_since w (runNode env url w)) = [E_Listen url None])
   \<and> (\<forall>e. listen_res env url = Some e \<longrightarrow>
        take 7 (events_since w (runNode env url w)) =
          [E_NewSocket None, E_AddTransport IPC, E_AddTransport TCP,
           E_SetOption OptionRecvDeadline (10 * Second), E_Listen url (Some e),
           E_Log (line_no_listen (node w) url e),
           E_Dial url (dial_res env url)]
        \<and> filter is_conn (events_since w (runNode env url w)) =
            [E_Listen url (Some e), E_Dial url (dial_res env url)])
   \<and> (\<forall>e e'. listen_res env url = Some e \<longrightarrow> dial_res env url = Some e' \<longrightarrow>
        runNode env url w =
          Exited (emit [E_NewSocket None, E_AddTransport IPC, E_AddTransport TCP,
                        E_SetOption OptionRecvDeadline (10 * Second), E_Listen url (Some e),
                        E_Log (line_no_listen (node w) url e),
                        E_Dial url (Some e'),
                        E_Log (line_no_dial (node w) url e'),
                        E_Exit 1] w))"
    using runNode_paths [of env url w] sock
    by (elim disjE exE conjE) (simp_all add: path_defs)
  then show ?thesis
    unfolding line_no_listen_def line_no_dial_def .
qed

theorem runNode_listen_then_dial_witness:
  "new_socket_res env_ok = None \<and> listen_res env_ok url0 = None
   \<and> filter is_conn (events_since node0_world (runNode env_ok url0 node0_world)) =
       [E_Listen url0 None]
   \<and> new_socket_res env_dialer = None
   \<and> listen_res env_dialer url0 = Some ''address already in use''
   \<and> filter is_conn (events_since node0_world (runNode env_dialer url0 node0_world)) =
       [E_Listen url0 (Some ''address already in use''), E_Dial url0 (dial_res env_dialer url0)]
   \<and> new_socket_res env_no_peer = None
   \<and> listen_res env_no_peer url0 = Some ''address already in use''
   \<and> dial_res env_no_peer url0 = Some ''connection refused''
   \<and> is_Exited (runNode env_no_peer url0 node0_world)
   \<and> filter is_conn (events_since node0_world (runNode env_no_peer url0 node0_world)) =
       [E_Listen url0 (Some ''address already in use''),
        E_Dial url0 (Some ''connection refused'')]"
proof -
  have a: "new_socket_res env_ok = None" "listen_res env_ok url0 = None"
    by (simp_all add: env_defs)
  have b: "new_socket_res env_dialer = None"
    "listen_res env_dialer url0 = Some ''address already in use''"
    by (simp_all add: env_defs)
  have c: "new_socket_res env_no_peer = None"
    "listen_res env_no_peer url0 = Some ''address already in use''"
    "dial_res env_no_peer url0 = Some ''connection refused''"
    by (simp_all add: env_defs)
  from runNode_listen_then_dial [where env = env_ok and url = url0 and w = node0_world, OF a(1)]
    a(2)
  have a': "filter is_conn (events_since node0_world (runNode env_ok url0 node0_world)) =
       [E_Listen url0 None]"
    by blast
  from runNode_listen_then_dial [where env = env_dialer and url = url0 and w = node0_world,
      OF b(1)] b(2)
  have b': "filter is_conn (events_since node0_world (runNode env_dialer url0 node0_world)) =
       [E_Listen url0 (Some ''address already in use''), E_Dial url0 (dial_res env_dialer url0)]"
    by blast
  note peer = runNode_listen_then_dial [where env = env_no_peer and url = url0
      and w = node0_world, OF c(1)]
  from peer c(2)
  have "filter is_conn (events_since node0_world (runNode env_no_peer url0 node0_world)) =
       [E_Listen url0 (Some ''address already in use''), E_Dial url0 (dial_res env_no_peer url0)]"
    by blast
  then have c': "filter is_conn (events_since node0_world (runNode env_no_peer url0 node0_world)) =
       [E_Listen url0 (Some ''address already in use''),
        E_Dial url0 (Some ''connection refused'')]"
    by (simp only: c(3))
  from peer c(2) c(3) have "\<exists>w'. runNode env_no_peer url0 node0_world = Exited w'"
    by blast
  then have c'': "is_Exited (runNode env_no_peer url0 node0_world)"
    by auto
  from a a' b b' c c' c'' show ?thesis
    by blast
qed

subsection \<open>C7: a failed send\<close>

text \<open>
  C7. When \<^verbatim>\<open>Send\<close> returns an error, \<^verbatim>\<open>send\<close> logs
  \<^verbatim>\<open>Node <role> failed to send '<payload>': <error>\<close>, which quotes the payload and names
  the role, and the process exits with status 1. In every run of \<^verbatim>\<open>runNode\<close> a failed
  send is followed by exactly this line and the exit.
\<close>

theorem send_failure_is_fatal:
  "(\<forall>e. send_res env (n_sends (trace w)) m = Some e \<longrightarrow>
      send env s m w =
        Exited (emit [E_Log (''Node '' @ node w @ '' sends '' @ m @ ''\<newline>''),
                      E_Send m (Some e),
                      E_Log (''Node '' @ node w @ '' failed to send '' @ [CHR 0x27] @ m
                             @ [CHR 0x27] @ '': '' @ e @ ''\<newline>''),
                      E_Exit 1] w))
   \<and> send_failure_fatal (node w) (events_since w (runNode env url w))"
proof
  show "\<forall>e. send_res env (n_sends (trace w)) m = Some e \<longrightarrow>
      send env s m w =
        Exited (emit [E_Log (''Node '' @ node w @ '' sends '' @ m @ ''\<newline>''),
                      E_Send m (Some e),
                      E_Log (''Node '' @ node w @ '' failed to send '' @ [CHR 0x27] @ m
                             @ [CHR 0x27] @ '': '' @ e @ ''\<newline>''),
                      E_Exit 1] w)"
    by (simp add: send_eq line_sends_def line_send_failed_def)
  show "send_failure_fatal (node w) (events_since w (runNode env url w))"
    using runNode_paths [of env url w]
    by (elim disjE exE conjE)
       (simp_all add: path_defs send_failure_fatal_fold del: send_failure_fatal.simps(2))
qed

theorem send_failure_is_fatal_witness:
  "send_res env_send_fails (n_sends (trace (emit [E_Send ''hello'' None] node0_world))) ''bye''
     = Some ''connection closed''
   \<and> send env_send_fails pair_socket ''bye'' (emit [E_Send ''hello'' None] node0_world) =
       Exited (emit [E_Send ''hello'' None,
                     E_Log ''Node 0 sends bye\<newline>'',
                     E_Send ''bye'' (Some ''connection closed''),
                     E_Log (''Node 0 failed to send '' @ [CHR 0x27] @ ''bye'' @ [CHR 0x27]
                            @ '': connection closed\<newline>''),
                     E_Exit 1] node0_world)
   \<and> is_Exited (runNode env_send_fails url0 node0_world)
   \<and> send_failure_fatal ''0'' (events_since node0_world (runNode env_send_fails url0 node0_world))"
proof -
  let ?w = "emit [E_Send ''hello'' None] node0_world"
  have h: "send_res env_send_fails (n_sends (trace ?w)) ''bye'' = Some ''connection closed''"
    by (simp add: env_defs)
  have nd: "node node0_world = ''0''"
    by (simp add: node0_world_def)
  have ex: "is_Exited (runNode env_send_fails url0 node0_world)"
    by (simp add: runNode_connect loop_step loop_done env_defs)
  note inst = send_failure_is_fatal [where env = env_send_fails and w = ?w and m = "''bye''"
      and s = pair_socket and url = url0]
  from inst h have "send env_send_fails pair_socket ''bye'' ?w =
        Exited (emit [E_Log (''Node '' @ node ?w @ '' sends '' @ ''bye'' @ ''\<newline>''),
                      E_Send ''bye'' (Some ''connection closed''),
                      E_Log (''Node '' @ node ?w @ '' failed to send '' @ [CHR 0x27] @ ''bye''
                             @ [CHR 0x27] @ '': '' @ ''connection closed'' @ ''\<newline>''),
                      E_Exit 1] ?w)"
    by blast
  then have one: "send env_send_fails pair_socket ''bye'' ?w =
       Exited (emit [E_Send ''hello'' None,
                     E_Log ''Node 0 sends bye\<newline>'',
                     E_Send ''bye'' (Some ''connection closed''),
                     E_Log (''Node 0 failed to send '' @ [CHR 0x27] @ ''bye'' @ [CHR 0x27]
                            @ '': connection closed\<newline>''),
                     E_Exit 1] node0_world)"
    by (simp add: nd)
  from send_failure_is_fatal [where env = env_send_fails and w = node0_world and m = "''bye''"
      and s = pair_socket and url = url0]
  have two: "send_failure_fatal ''0''
               (events_since node0_world (runNode env_send_fails url0 node0_world))"
    by (simp only: nd)
  from h one ex two show ?thesis
    by blast
qed

subsection \<open>C6: a failed receive\<close>

text \<open>
  C6. When \<^verbatim>\<open>Recv\<close> returns an error, which is also what it does when the receive
  deadline of the socket has passed without a message, \<^verbatim>\<open>receive\<close> logs
  \<^verbatim>\<open>Node <role> failed receiving a message: <error>\<close> and the process exits with status 1.
  In every run of \<^verbatim>\<open>runNode\<close> a failed receive is followed by exactly this line and the
  exit: there is no second attempt. A run that reaches a receive has set the receive
  deadline of its socket to ten seconds before the first one.
\<close>

theorem receive_failure_is_fatal:
  "(\<forall>e. recv_res env (n_recvs (trace w)) = Inl e \<longrightarrow>
      receive env s w =
        Exited (emit [E_Recv (Inl e),
                      E_Log (''Node '' @ node w @ '' failed receiving a message: '' @ e
                             @ ''\<newline>''),
                      E_Exit 1] w))
   \<and> recv_failure_fatal (node w) (events_since w (runNode env url w))
   \<and> (0 < n_recvs (events_since w (runNode env url w)) \<longrightarrow>
        E_SetOption OptionRecvDeadline (10 * Second)
          \<in> set (takeWhile (\<lambda>e. \<not> is_recv e) (events_since w (runNode env url w))))"
proof (intro conjI)
  show "\<forall>e. recv_res env (n_recvs (trace w)) = Inl e \<longrightarrow>
      receive env s w =
        Exited (emit [E_Recv (Inl e),
                      E_Log (''Node '' @ node w @ '' failed receiving a message: '' @ e
                             @ ''\<newline>''),
                      E_Exit 1] w)"
    by (simp add: receive_eq line_recv_failed_def)
  show "recv_failure_fatal (node w) (events_since w (runNode env url w))"
    using runNode_paths [of env url w]
    by (elim disjE exE conjE)
       (simp_all add: path_defs recv_failure_fatal_fold del: recv_failure_fatal.simps(2))
  show "0 < n_recvs (events_since w (runNode env url w)) \<longrightarrow>
        E_SetOption OptionRecvDeadline (10 * Second)
          \<in> set (takeWhile (\<lambda>e. \<not> is_recv e) (events_since w (runNode env url w)))"
    using runNode_paths [of env url w]
    by (elim disjE exE conjE) (simp_all add: path_defs)
qed

theorem receive_failure_is_fatal_witness:
  "recv_res env_silent (n_recvs (trace node0_world)) = Inl ''receive time out''
   \<and> receive env_silent pair_socket node0_world =
       Exited (emit [E_Recv (Inl ''receive time out''),
                     E_Log ''Node 0 failed receiving a message: receive time out\<newline>'',
                     E_Exit 1] node0_world)
   \<and> is_Exited (runNode env_recv_timeout url0 node0_world)
   \<and> n_recvs (events_since node0_world (runNode env_recv_timeout url0 node0_world)) = 3
   \<and> recv_failure_fatal ''0''
       (events_since node0_world (runNode env_recv_timeout url0 node0_world))
   \<and> E_SetOption OptionRecvDeadline 10000000000
       \<in> set (takeWhile (\<lambda>e. \<not> is_recv e)
                (events_since node0_world (runNode env_recv_timeout url0 node0_world)))"
proof -
  have h: "recv_res env_silent (n_recvs (trace node0_world)) = Inl ''receive time out''"
    by (simp add: env_defs)
  have nd: "node node0_world = ''0''"
    by (simp add: node0_world_def)
  have ex: "is_Exited (runNode env_recv_timeout url0 node0_world)
            \<and> n_recvs (events_since node0_world (runNode env_recv_timeout url0 node0_world)) = 3"
    by (simp add: runNode_connect loop_step loop_done env_defs path_defs)
  from receive_failure_is_fatal [where env = env_silent and w = node0_world
      and s = pair_socket and url = url0] h
  have "receive env_silent pair_socket node0_world =
        Exited (emit [E_Recv (Inl ''receive time out''),
                      E_Log (''Node '' @ node node0_world @ '' failed receiving a message: ''
                             @ ''receive time out'' @ ''\<newline>''),
                      E_Exit 1] node0_world)"
    by blast
  then have one: "receive env_silent pair_socket node0_world =
       Exited (emit [E_Recv (Inl ''receive time out''),
                     E_Log ''Node 0 failed receiving a message: receive time out\<newline>'',
                     E_Exit 1] node0_world)"
    by (simp add: nd)
  from receive_failure_is_fatal [where env = env_recv_timeout and w = node0_world
      and s = pair_socket and url = url0]
  have two: "recv_failure_fatal ''0''
               (events_since node0_world (runNode env_recv_timeout url0 node0_world))"
    by (simp only: nd)
  from receive_failure_is_fatal [where env = env_recv_timeout and w = node0_world
      and s = pair_socket and url = url0] ex
  have "E_SetOption OptionRecvDeadline (10 * Second)
       \<in> set (takeWhile (\<lambda>e. \<not> is_recv e)
                (events_since node0_world (runNode env_recv_timeout url0 node0_world)))"
    by simp
  then have three: "E_SetOption OptionRecvDeadline 10000000000
       \<in> set (takeWhile (\<lambda>e. \<not> is_recv e)
                (events_since node0_world (runNode env_recv_timeout url0 node0_world)))"
    by (simp add: Second_def)
  from h one ex two three show ?thesis
    by blast
qed

subsection \<open>C8: the command line\<close>

text \<open>
  C8. The argument vector is the program name followed by the positional arguments. With
  fewer than two positional arguments \<^verbatim>\<open>main\<close> logs the usage line and returns: the run
  has no other event, so no socket is made and nothing is sent or received, and the
  process has neither exited through \<^verbatim>\<open>os.Exit\<close> nor panicked. With two or more, \<^verbatim>\<open>main\<close>
  stores the first in \<^verbatim>\<open>node\<close>, where it stays, and runs \<^verbatim>\<open>runNode\<close> on the second.
\<close>

theorem main_arguments:
  "(length pos < 2 \<longrightarrow>
      main env (prog # pos) w =
        Returned () (emit [E_Log (''Usage: '' @ prog @ '' 0|1 <url>\<newline>'')] w))
   \<and> (2 \<le> length pos \<longrightarrow>
        main env (prog # pos) w = runNode env (pos ! 1) (w\<lparr>node := pos ! 0\<rparr>)
        \<and> node (world_of (main env (prog # pos) w)) = pos ! 0)"
  by (auto simp add: main_def log_Printf_def node_runNode)

theorem main_arguments_witness:
  "length [''0''] < 2
   \<and> main env_ok [''./messaging'', ''0''] init_world =
       Returned () (emit [E_Log ''Usage: ./messaging 0|1 <url>\<newline>''] init_world)
   \<and> 2 \<le> length [''1'', url0]
   \<and> main env_ok [''./messaging'', ''1'', url0] init_world =
       runNode env_ok url0 (init_world\<lparr>node := ''1''\<rparr>)
   \<and> node (world_of (main env_ok [''./messaging'', ''1'', url0] init_world)) = ''1''"
proof -
  have a: "length [''0''] < 2" and b: "2 \<le> length [''1'', url0]"
    by simp_all
  from main_arguments [where env = env_ok and prog = "''./messaging''" and pos = "[''0'']"
      and w = init_world] a
  have "main env_ok [''./messaging'', ''0''] init_world =
        Returned ()
          (emit [E_Log (''Usage: '' @ ''./messaging'' @ '' 0|1 <url>\<newline>'')] init_world)"
    by blast
  then have one: "main env_ok [''./messaging'', ''0''] init_world =
       Returned () (emit [E_Log ''Usage: ./messaging 0|1 <url>\<newline>''] init_world)"
    by simp
  from main_arguments [where env = env_ok and prog = "''./messaging''"
      and pos = "[''1'', url0]" and w = init_world] b
  have "main env_ok [''./messaging'', ''1'', url0] init_world
          = runNode env_ok ([''1'', url0] ! 1) (init_world\<lparr>node := [''1'', url0] ! 0\<rparr>)
        \<and> node (world_of (main env_ok [''./messaging'', ''1'', url0] init_world))
          = [''1'', url0] ! 0"
    by blast
  moreover have "[''1'', url0] ! 0 = ''1''" and "[''1'', url0] ! 1 = url0"
    by simp_all
  ultimately have two: "main env_ok [''./messaging'', ''1'', url0] init_world =
       runNode env_ok url0 (init_world\<lparr>node := ''1''\<rparr>)
     \<and> node (world_of (main env_ok [''./messaging'', ''1'', url0] init_world)) = ''1''"
    by metis
  from a b one two show ?thesis
    by blast
qed

subsection \<open>C3: three round trips\<close>

text \<open>
  C3. In every run in which \<^verbatim>\<open>runNode\<close> returns, the sends and receives of the run are
  exactly three round trips, one after the other: each a successful send followed by a
  successful receive. The message of round \<open>i\<close> is \<^verbatim>\<open>message <i> from node <role>.\<close> for
  \<open>i\<close> = 0, 1, 2. The last two events of the run are the log line
  \<^verbatim>\<open>Node <role>: Done.\<close> and the closing of the socket, so the line is logged after the
  third round.
\<close>

theorem runNode_three_round_trips:
  "is_Returned (runNode env url w) \<Longrightarrow>
   (\<exists>b0 b1 b2. filter is_io (events_since w (runNode env url w)) =
      [E_Send (''message 0 from node '' @ node w @ ''.'') None, E_Recv (Inr b0),
       E_Send (''message 1 from node '' @ node w @ ''.'') None, E_Recv (Inr b1),
       E_Send (''message 2 from node '' @ node w @ ''.'') None, E_Recv (Inr b2)])
   \<and> last_two (events_since w (runNode env url w)) =
       [E_Log (''Node '' @ node w @ '': Done.\<newline>''), E_Close]"
proof -
  assume ret: "is_Returned (runNode env url w)"
  have "(\<exists>b0 b1 b2. filter is_io (events_since w (runNode env url w)) =
      [E_Send (payload (node w) 0) None, E_Recv (Inr b0),
       E_Send (payload (node w) 1) None, E_Recv (Inr b1),
       E_Send (payload (node w) 2) None, E_Recv (Inr b2)])
   \<and> last_two (events_since w (runNode env url w)) = [E_Log (line_done (node w)), E_Close]"
    using runNode_paths [of env url w] ret
    by (elim disjE exE conjE) (simp_all add: path_defs last_two_def)
  then show ?thesis
    unfolding payload_small line_done_def .
qed

theorem runNode_three_round_trips_witness:
  "is_Returned (runNode env_ok url0 node0_world)
   \<and> (\<exists>b0 b1 b2. filter is_io (events_since node0_world (runNode env_ok url0 node0_world)) =
        [E_Send ''message 0 from node 0.'' None, E_Recv (Inr b0),
         E_Send ''message 1 from node 0.'' None, E_Recv (Inr b1),
         E_Send ''message 2 from node 0.'' None, E_Recv (Inr b2)])
   \<and> last_two (events_since node0_world (runNode env_ok url0 node0_world)) =
       [E_Log ''Node 0: Done.\<newline>'', E_Close]"
proof -
  have ret: "is_Returned (runNode env_ok url0 node0_world)"
    by (simp add: runNode_connect loop_step loop_done env_defs)
  have nd: "node node0_world = ''0''"
    by (simp add: node0_world_def)
  from runNode_three_round_trips [where env = env_ok and url = url0 and w = node0_world,
      OF ret]
  have "(\<exists>b0 b1 b2. filter is_io (events_since node0_world (runNode env_ok url0 node0_world)) =
        [E_Send ''message 0 from node 0.'' None, E_Recv (Inr b0),
         E_Send ''message 1 from node 0.'' None, E_Recv (Inr b1),
         E_Send ''message 2 from node 0.'' None, E_Recv (Inr b2)])
     \<and> last_two (events_since node0_world (runNode env_ok url0 node0_world)) =
         [E_Log ''Node 0: Done.\<newline>'', E_Close]"
    by (simp add: nd)
  with ret show ?thesis
    by blast
qed

subsection \<open>C5: send before receive\<close>

text \<open>
  C5. In every run of \<^verbatim>\<open>runNode\<close>, however it ends, the sends and receives alternate and
  begin with a send, and a receive is attempted only after the send before it has
  succeeded: the receive of a round never comes before the send of that round. There are
  at most three sends, and exactly three sends and three receives when \<^verbatim>\<open>runNode\<close>
  returns.
\<close>

theorem runNode_send_before_receive:
  "send_before_recv (filter is_io (events_since w (runNode env url w)))
   \<and> n_sends (events_since w (runNode env url w)) \<le> 3
   \<and> (is_Returned (runNode env url w) \<longrightarrow>
        map is_send (filter is_io (events_since w (runNode env url w))) =
          [True, False, True, False, True, False])"
  using runNode_paths [of env url w]
  by (elim disjE exE conjE) (simp_all add: path_defs)

theorem runNode_send_before_receive_witness:
  "is_Returned (runNode env_dialer url0 node0_world)
   \<and> send_before_recv (filter is_io (events_since node0_world (runNode env_dialer url0 node0_world)))
   \<and> map is_send (filter is_io (events_since node0_world (runNode env_dialer url0 node0_world))) =
       [True, False, True, False, True, False]
   \<and> send_before_recv
       (filter is_io (events_since node0_world (runNode env_recv_timeout url0 node0_world)))"
proof -
  have ret: "is_Returned (runNode env_dialer url0 node0_world)"
    by (simp add: runNode_connect loop_step loop_done env_defs)
  from runNode_send_before_receive [where env = env_dialer and url = url0 and w = node0_world]
    runNode_send_before_receive [where env = env_recv_timeout and url = url0
      and w = node0_world] ret
  show ?thesis
    by blast
qed

subsection \<open>C9: the pause after each receive\<close>

text \<open>
  C9. In every run of \<^verbatim>\<open>runNode\<close>, each successful receive is followed, after its log
  line, by a sleep of exactly one second, and the run has no other sleep. Sends and sleeps
  alternate, beginning with a send, so the sleep comes before the send of the next round
  and is the only one between two rounds. A run in which \<^verbatim>\<open>runNode\<close> returns has three
  sleeps of one second.
\<close>

theorem runNode_pacing:
  "paced (events_since w (runNode env url w))
   \<and> prefix (map is_sleep
               (filter (\<lambda>e. is_send e \<or> is_sleep e) (events_since w (runNode env url w))))
        [False, True, False, True, False, True]
   \<and> (is_Returned (runNode env url w) \<longrightarrow>
        filter is_sleep (events_since w (runNode env url w)) =
          [E_Sleep (1 * Second), E_Sleep (1 * Second), E_Sleep (1 * Second)])"
  using runNode_paths [of env url w]
  by (elim disjE exE conjE) (simp_all add: path_defs)

theorem runNode_pacing_witness:
  "is_Returned (runNode env_ok url0 node0_world)
   \<and> paced (events_since node0_world (runNode env_ok url0 node0_world))
   \<and> filter is_sleep (events_since node0_world (runNode env_ok url0 node0_world)) =
       [E_Sleep 1000000000, E_Sleep 1000000000, E_Sleep 1000000000]
   \<and> paced (events_since node0_world (runNode env_send_fails url0 node0_world))"
proof -
  have ret: "is_Returned (runNode env_ok url0 node0_world)"
    by (simp add: runNode_connect loop_step loop_done env_defs)
  from runNode_pacing [where env = env_ok and url = url0 and w = node0_world] ret
  have a: "paced (events_since node0_world (runNode env_ok url0 node0_world))"
    and "filter is_sleep (events_since node0_world (runNode env_ok url0 node0_world)) =
       [E_Sleep (1 * Second), E_Sleep (1 * Second), E_Sleep (1 * Second)]"
    by blast+
  then have b: "filter is_sleep (events_since node0_world (runNode env_ok url0 node0_world)) =
       [E_Sleep 1000000000, E_Sleep 1000000000, E_Sleep 1000000000]"
    by (simp add: Second_def)
  from runNode_pacing [where env = env_send_fails and url = url0 and w = node0_world]
  have c: "paced (events_since node0_world (runNode env_send_fails url0 node0_world))"
    by blast
  from ret a b c show ?thesis
    by blast
qed

subsection \<open>C10: the replies do not influence what is sent\<close>

text \<open>
  C10. Take a run in which every receive succeeds, and a second run that differs from it
  only in what the receives return (\<open>r'\<close> in place of \<open>recv_res env\<close>, again always a
  message). Both runs send the same payloads and end the same way. When they return, the
  payloads are \<^verbatim>\<open>message 0 from node <role>.\<close>, \<^verbatim>\<open>message 1 from node <role>.\<close> and
  \<^verbatim>\<open>message 2 from node <role>.\<close>, and both runs end with the line
  \<^verbatim>\<open>Node <role>: Done.\<close> and the closing of the socket.
\<close>

theorem sent_payloads_ignore_replies:
  assumes "\<forall>k. is_ok (recv_res env k)" and "\<forall>k. is_ok (r' k)"
  shows "sent_payloads (events_since w (runNode (env\<lparr>recv_res := r'\<rparr>) url w))
           = sent_payloads (events_since w (runNode env url w))
   \<and> is_Returned (runNode (env\<lparr>recv_res := r'\<rparr>) url w) = is_Returned (runNode env url w)
   \<and> (is_Returned (runNode env url w) \<longrightarrow>
        sent_payloads (events_since w (runNode env url w)) =
          [''message 0 from node '' @ node w @ ''.'', ''message 1 from node '' @ node w @ ''.'',
           ''message 2 from node '' @ node w @ ''.'']
        \<and> last_two (events_since w (runNode env url w)) =
            [E_Log (''Node '' @ node w @ '': Done.\<newline>''), E_Close]
        \<and> last_two (events_since w (runNode (env\<lparr>recv_res := r'\<rparr>) url w)) =
            [E_Log (''Node '' @ node w @ '': Done.\<newline>''), E_Close])"
proof -
  define b where "b = (\<lambda>k. projr (recv_res env k))"
  define b' where "b' = (\<lambda>k. projr (r' k))"
  have r1: "recv_res env = (\<lambda>k. Inr (b k))"
    using assms(1) by (auto simp add: b_def intro: is_ok_Inr)
  have r2: "r' = (\<lambda>k. Inr (b' k))"
    using assms(2) by (auto simp add: b'_def intro: is_ok_Inr)
  have "sent_payloads (events_since w (runNode (env\<lparr>recv_res := r'\<rparr>) url w))
           = sent_payloads (events_since w (runNode env url w))
   \<and> is_Returned (runNode (env\<lparr>recv_res := r'\<rparr>) url w) = is_Returned (runNode env url w)
   \<and> (is_Returned (runNode env url w) \<longrightarrow>
        sent_payloads (events_since w (runNode env url w)) =
          [payload (node w) 0, payload (node w) 1, payload (node w) 2]
        \<and> last_two (events_since w (runNode env url w)) =
            [E_Log (line_done (node w)), E_Close]
        \<and> last_two (events_since w (runNode (env\<lparr>recv_res := r'\<rparr>) url w)) =
            [E_Log (line_done (node w)), E_Close])"
    using runNode_paths [of env url w]
    by (elim disjE exE conjE)
       (simp_all add: r1 r2 runNode_connect loop_step loop_done path_defs sent_payloads_def
          last_two_def)
  then show ?thesis
    unfolding payload_small line_done_def .
qed

theorem sent_payloads_ignore_replies_witness:
  "(\<forall>k. is_ok (recv_res env_ok k)) \<and> (\<forall>k. is_ok (Inr ''pong'' :: string + string))
   \<and> is_Returned (runNode env_ok url0 node0_world)
   \<and> sent_payloads
       (events_since node0_world (runNode (env_ok\<lparr>recv_res := (\<lambda>k. Inr ''pong'')\<rparr>) url0 node0_world))
     = sent_payloads (events_since node0_world (runNode env_ok url0 node0_world))
   \<and> sent_payloads (events_since node0_world (runNode env_ok url0 node0_world)) =
       [''message 0 from node 0.'', ''message 1 from node 0.'', ''message 2 from node 0.'']"
proof -
  have h1: "\<forall>k. is_ok (recv_res env_ok k)"
    by (simp add: env_defs)
  have h2: "\<forall>k. is_ok ((\<lambda>k. Inr ''pong'' :: string + string) k)"
    by simp
  have ret: "is_Returned (runNode env_ok url0 node0_world)"
    by (simp add: runNode_connect loop_step loop_done env_defs)
  have nd: "node node0_world = ''0''"
    by (simp add: node0_world_def)
  note inst = sent_payloads_ignore_replies [where env = env_ok
      and r' = "\<lambda>k. Inr ''pong''" and url = url0 and w = node0_world, OF h1 h2]
  from inst have same: "sent_payloads
       (events_since node0_world (runNode (env_ok\<lparr>recv_res := (\<lambda>k. Inr ''pong'')\<rparr>) url0 node0_world))
     = sent_payloads (events_since node0_world (runNode env_ok url0 node0_world))"
    by blast
  from inst ret have "sent_payloads (events_since node0_world (runNode env_ok url0 node0_world)) =
          [''message 0 from node '' @ node node0_world @ ''.'',
           ''message 1 from node '' @ node node0_world @ ''.'',
           ''message 2 from node '' @ node node0_world @ ''.'']"
    by blast
  then have three: "sent_payloads (events_since node0_world (runNode env_ok url0 node0_world)) =
       [''message 0 from node 0.'', ''message 1 from node 0.'', ''message 2 from node 0.'']"
    by (simp add: nd)
  from h1 h2 ret same three show ?thesis
    by simp
qed

end
